theory Spec2Isabelle
  imports Main "HOL-Library.Word"
begin

unbundle bit_operations_syntax

section \<open>JavaScript values as the handler sees them\<close>

text \<open>
  The program is one Netlify function, \<^verbatim>\<open>exports.handler\<close> in
  \<^verbatim>\<open>netlify/functions/deepseek-polish.js\<close>. It reads an event, the process
  environment and the outcome of one \<^verbatim>\<open>fetch\<close>, and returns a response object.

  A JavaScript string is a sequence of UTF-16 code units, so it is a list of 16-bit words
  here; \<open>js\<close> turns an ASCII literal of the source into such a list.
\<close>

type_synonym jsstring = "16 word list"

definition js :: "string \<Rightarrow> jsstring" where
  "js s = map of_char s"

text \<open>
  A number that came out of \<^verbatim>\<open>JSON.parse\<close> is kept as the decimal literal it was
  read from: the value is \<open>(-1)^neg * mant * 10^exp10\<close>. The engine rounds that to the
  nearest IEEE double; the handler only ever asks whether the result is zero and what
  its string rendering is.
\<close>

record number =
  neg :: bool
  mant :: nat
  exp10 :: int

datatype jsval =
    Undefined
  | Null
  | Bool bool
  | Num number
  | Str jsstring
  | Arr "jsval list"
  | Obj "(jsstring \<times> jsval) list"

text \<open>
  The errors the handler's \<^verbatim>\<open>try\<close> blocks can see:
  \<^item> \<open>SyntaxError s\<close>: \<^verbatim>\<open>JSON.parse\<close> rejected the text \<open>s\<close>;
  \<^item> \<open>NullProperty v k\<close>: property \<open>k\<close> was read from \<open>v\<close>, which is
    \<^verbatim>\<open>null\<close> or \<^verbatim>\<open>undefined\<close> (a TypeError);
  \<^item> \<open>NotAFunction v\<close>: \<^verbatim>\<open>v.toString()\<close> was called where \<open>v\<close> has an own
    property \<^verbatim>\<open>toString\<close> that is not callable (a TypeError);
  \<^item> \<open>NoPrimitive v\<close>: the object \<open>v\<close> could not be converted to a primitive value
    (a TypeError);
  \<^item> \<open>Rejected s\<close>: a promise of the environment (\<^verbatim>\<open>fetch\<close>, reading the response
    body) was rejected with a value whose \<^verbatim>\<open>String\<close> rendering is \<open>s\<close>.
\<close>

datatype exn =
    SyntaxError jsstring
  | NullProperty jsval jsstring
  | NotAFunction jsval
  | NoPrimitive jsval
  | Rejected jsstring

subsection \<open>Truthiness and \<^verbatim>\<open>||\<close>\<close>

text \<open>
  A decimal literal rounds to \<open>\<plusminus>0\<close> exactly when its magnitude is at most
  \<open>2^-1075\<close>, half the smallest subnormal double (round to nearest, ties to even).
\<close>

definition is_zero :: "number \<Rightarrow> bool" where
  "is_zero n =
     (if 0 \<le> exp10 n then mant n = 0
      else mant n * 2 ^ 1075 \<le> 10 ^ nat (- exp10 n))"

fun truthy :: "jsval \<Rightarrow> bool" where
  "truthy Undefined = False"
| "truthy Null = False"
| "truthy (Bool b) = b"
| "truthy (Num n) = (\<not> is_zero n)"
| "truthy (Str s) = (s \<noteq> [])"
| "truthy (Arr xs) = True"
| "truthy (Obj kvs) = True"

definition or_else :: "jsval \<Rightarrow> jsval \<Rightarrow> jsval" where
  "or_else a b = (if truthy a then a else b)"

subsection \<open>\<^verbatim>\<open>String.prototype.trim\<close>\<close>

text \<open>The code units of WhiteSpace and LineTerminator of the language standard.\<close>

definition is_space :: "16 word \<Rightarrow> bool" where
  "is_space c =
     (c = 0x9 \<or> c = 0xA \<or> c = 0xB \<or> c = 0xC \<or> c = 0xD \<or> c = 0x20 \<or> c = 0xA0 \<or>
      c = 0x1680 \<or> (0x2000 \<le> c \<and> c \<le> 0x200A) \<or> c = 0x2028 \<or> c = 0x2029 \<or>
      c = 0x202F \<or> c = 0x205F \<or> c = 0x3000 \<or> c = 0xFEFF)"

definition trim :: "jsstring \<Rightarrow> jsstring" where
  "trim s = rev (dropWhile is_space (rev (dropWhile is_space s)))"

subsection \<open>Reading properties\<close>

text \<open>
  \<open>member v k\<close> is \<^verbatim>\<open>v[k]\<close> for a value \<open>v\<close> that is neither \<^verbatim>\<open>null\<close> nor
  \<^verbatim>\<open>undefined\<close>. An object built by \<^verbatim>\<open>JSON.parse\<close> has its keys as own data
  properties, the last occurrence of a repeated key winning. The handler reads only the
  names \<^verbatim>\<open>text\<close>, \<^verbatim>\<open>patient\<close>, \<^verbatim>\<open>template\<close>, \<^verbatim>\<open>name\<close>, \<^verbatim>\<open>id\<close>,
  \<^verbatim>\<open>date\<close>, \<^verbatim>\<open>choices\<close>, \<^verbatim>\<open>0\<close>, \<^verbatim>\<open>message\<close>, \<^verbatim>\<open>content\<close>, and the four
  spellings of findings and impression; of these only \<^verbatim>\<open>0\<close> exists on a string or
  an array, and none is inherited from a prototype.
\<close>

fun member :: "jsval \<Rightarrow> jsstring \<Rightarrow> jsval" where
  "member (Obj kvs) k = (case map_of (rev kvs) k of None \<Rightarrow> Undefined | Some v \<Rightarrow> v)"
| "member (Arr xs) k =
     (if k = js ''0'' then (case xs of [] \<Rightarrow> Undefined | x # _ \<Rightarrow> x) else Undefined)"
| "member (Str s) k =
     (if k = js ''0'' then (case s of [] \<Rightarrow> Undefined | c # _ \<Rightarrow> Str [c]) else Undefined)"
| "member v k = Undefined"

text \<open>\<^verbatim>\<open>v.k\<close>, which throws on \<^verbatim>\<open>null\<close> and \<^verbatim>\<open>undefined\<close>.\<close>

definition get :: "jsval \<Rightarrow> jsstring \<Rightarrow> exn + jsval" where
  "get v k = (if v = Undefined \<or> v = Null then Inl (NullProperty v k) else Inr (member v k))"

text \<open>\<^verbatim>\<open>v?.k\<close> and \<^verbatim>\<open>v?.[0]\<close>, which do not.\<close>

definition get_opt :: "jsval \<Rightarrow> jsstring \<Rightarrow> jsval" where
  "get_opt v k = (if v = Undefined \<or> v = Null then Undefined else member v k)"

subsection \<open>Conversion to string\<close>

definition has_own :: "(jsstring \<times> jsval) list \<Rightarrow> jsstring \<Rightarrow> bool" where
  "has_own kvs k = (map_of kvs k \<noteq> None)"

text \<open>
  The abstract operation ToString, used by template literals, by \<^verbatim>\<open>Array.prototype.join\<close>
  and by \<^verbatim>\<open>JSON.parse\<close> on its argument. The rendering of a number is the engine's
  (shortest round-trip printing of a double) and is a parameter \<open>nts\<close>. An object from
  \<^verbatim>\<open>JSON.parse\<close> renders as \<^verbatim>\<open>[object Object]\<close> unless it has an own property
  \<^verbatim>\<open>toString\<close>: that one is never callable, \<^verbatim>\<open>valueOf\<close> yields no primitive either,
  and the conversion throws. An array joins its elements with commas, \<^verbatim>\<open>null\<close> and
  \<^verbatim>\<open>undefined\<close> elements rendering as the empty string.
\<close>

fun ToString :: "(number \<Rightarrow> jsstring) \<Rightarrow> jsval \<Rightarrow> exn + jsstring"
  and join :: "(number \<Rightarrow> jsstring) \<Rightarrow> jsval list \<Rightarrow> exn + jsstring" where
  "ToString nts Undefined = Inr (js ''undefined'')"
| "ToString nts Null = Inr (js ''null'')"
| "ToString nts (Bool b) = Inr (if b then js ''true'' else js ''false'')"
| "ToString nts (Num n) = Inr (nts n)"
| "ToString nts (Str s) = Inr s"
| "ToString nts (Arr xs) = join nts xs"
| "ToString nts (Obj kvs) =
     (if has_own kvs (js ''toString'') then Inl (NoPrimitive (Obj kvs))
      else Inr (js ''[object Object]''))"
| "join nts [] = Inr []"
| "join nts (x # xs) =
     (case (if x = Undefined \<or> x = Null then Inr [] else ToString nts x) of
        Inl e \<Rightarrow> Inl e
      | Inr s \<Rightarrow>
          (if xs = [] then Inr s
           else (case join nts xs of
                   Inl e \<Rightarrow> Inl e
                 | Inr t \<Rightarrow> Inr (s @ js '','' @ t))))"

text \<open>The method call \<^verbatim>\<open>v.toString()\<close>.\<close>

definition toString :: "(number \<Rightarrow> jsstring) \<Rightarrow> jsval \<Rightarrow> exn + jsstring" where
  "toString nts v =
     (case v of
        Undefined \<Rightarrow> Inl (NullProperty v (js ''toString''))
      | Null \<Rightarrow> Inl (NullProperty v (js ''toString''))
      | Obj kvs \<Rightarrow>
          (if has_own kvs (js ''toString'') then Inl (NotAFunction v)
           else Inr (js ''[object Object]''))
      | _ \<Rightarrow> ToString nts v)"

section \<open>\<^verbatim>\<open>JSON.parse\<close>\<close>

subsection \<open>Tokens\<close>

datatype token = LBrace | RBrace | LBrack | RBrack | Colon | Comma | Lit jsval

definition is_json_ws :: "16 word \<Rightarrow> bool" where
  "is_json_ws c = (c = 0x20 \<or> c = 0x9 \<or> c = 0xA \<or> c = 0xD)"

definition is_digit :: "16 word \<Rightarrow> bool" where
  "is_digit c = (0x30 \<le> c \<and> c \<le> 0x39)"

definition hex_val :: "16 word \<Rightarrow> 16 word option" where
  "hex_val c =
     (if 0x30 \<le> c \<and> c \<le> 0x39 then Some (c - 0x30)
      else if 0x41 \<le> c \<and> c \<le> 0x46 then Some (c - 0x37)
      else if 0x61 \<le> c \<and> c \<le> 0x66 then Some (c - 0x57)
      else None)"

text \<open>The code unit of \<^verbatim>\<open>\uXXXX\<close>, from its four hexadecimal digits.\<close>

definition hex4 :: "16 word \<Rightarrow> 16 word \<Rightarrow> 16 word \<Rightarrow> 16 word \<Rightarrow> 16 word option" where
  "hex4 h1 h2 h3 h4 =
     (case (hex_val h1, hex_val h2, hex_val h3, hex_val h4) of
        (Some a, Some b, Some x, Some y) \<Rightarrow> Some (a * 0x1000 + b * 0x100 + x * 0x10 + y)
      | _ \<Rightarrow> None)"

text \<open>The character after a backslash, for the one-character escapes.\<close>

definition unescape :: "16 word \<Rightarrow> 16 word option" where
  "unescape e =
     (if e = 0x22 then Some 0x22
      else if e = 0x5C then Some 0x5C
      else if e = 0x2F then Some 0x2F
      else if e = 0x62 then Some 0x8
      else if e = 0x66 then Some 0xC
      else if e = 0x6E then Some 0xA
      else if e = 0x72 then Some 0xD
      else if e = 0x74 then Some 0x9
      else None)"

text \<open>
  The rest of a string literal after its opening quote: the string (accumulated in
  reverse) and what follows the closing quote.
\<close>

fun lex_string :: "jsstring \<Rightarrow> jsstring \<Rightarrow> (jsstring \<times> jsstring) option" where
  "lex_string acc [] = None"
| "lex_string acc (c # cs) =
     (if c = 0x22 then Some (rev acc, cs)
      else if c = 0x5C then
        (case cs of
           [] \<Rightarrow> None
         | e # es \<Rightarrow>
             (if e = 0x75 then
                (case es of
                   h1 # h2 # h3 # h4 # rest \<Rightarrow>
                     (case hex4 h1 h2 h3 h4 of
                        None \<Rightarrow> None
                      | Some u \<Rightarrow> lex_string (u # acc) rest)
                 | _ \<Rightarrow> None)
              else (case unescape e of
                      None \<Rightarrow> None
                    | Some u \<Rightarrow> lex_string (u # acc) es)))
      else if c < 0x20 then None
      else lex_string (c # acc) cs)"

definition digits_val :: "jsstring \<Rightarrow> nat" where
  "digits_val ds = foldl (\<lambda>a c. 10 * a + (unat c - 48)) 0 ds"

text \<open>
  A number literal: an optional minus, an integer part without a leading zero, an
  optional fraction, an optional exponent.
\<close>

definition lex_exponent :: "jsstring \<Rightarrow> (int \<times> jsstring) option" where
  "lex_exponent cs =
     (case cs of
        [] \<Rightarrow> Some (0, cs)
      | c # r \<Rightarrow>
          (if c = 0x65 \<or> c = 0x45 then
             (let (minus, r') =
                    (case r of
                       [] \<Rightarrow> (False, r)
                     | s # t \<Rightarrow> if s = 0x2B then (False, t) else if s = 0x2D then (True, t) else (False, r));
                  ds = takeWhile is_digit r'
              in if ds = [] then None
                 else Some ((if minus then - int (digits_val ds) else int (digits_val ds)),
                            dropWhile is_digit r'))
           else Some (0, cs)))"

definition lex_fraction :: "jsstring \<Rightarrow> (jsstring \<times> jsstring) option" where
  "lex_fraction cs =
     (case cs of
        [] \<Rightarrow> Some ([], cs)
      | c # r \<Rightarrow>
          (if c = 0x2E then
             (let ds = takeWhile is_digit r
              in if ds = [] then None else Some (ds, dropWhile is_digit r))
           else Some ([], cs)))"

definition lex_number :: "jsstring \<Rightarrow> (number \<times> jsstring) option" where
  "lex_number cs =
     (let (minus, cs1) = (case cs of [] \<Rightarrow> (False, cs) | c # r \<Rightarrow> if c = 0x2D then (True, r) else (False, cs));
          ip = takeWhile is_digit cs1
      in if ip = [] \<or> (hd ip = 0x30 \<and> tl ip \<noteq> []) then None
         else (case lex_fraction (dropWhile is_digit cs1) of
                 None \<Rightarrow> None
               | Some (fp, cs2) \<Rightarrow>
                   (case lex_exponent cs2 of
                      None \<Rightarrow> None
                    | Some (e, cs3) \<Rightarrow>
                        Some (\<lparr>neg = minus, mant = digits_val (ip @ fp),
                                exp10 = e - int (length fp)\<rparr>, cs3))))"

lemma lex_string_shorter:
  "lex_string acc cs = Some (s, rest) \<Longrightarrow> length rest < length cs"
  apply (induction acc cs rule: lex_string.induct)
   apply simp
  apply (simp split: if_splits list.splits option.splits)
    apply (fastforce intro: less_SucI)+
  done

lemma lex_fraction_shorter:
  "lex_fraction cs = Some (fp, rest) \<Longrightarrow> length rest \<le> length cs"
  by (auto simp: lex_fraction_def Let_def split: list.splits if_splits
      intro: le_SucI length_dropWhile_le)

lemma lex_exponent_shorter:
  "lex_exponent cs = Some (e, rest) \<Longrightarrow> length rest \<le> length cs"
  by (auto simp: lex_exponent_def Let_def split: list.splits if_splits
      intro: le_SucI length_dropWhile_le)

lemma dropWhile_shorter:
  "takeWhile P xs \<noteq> [] \<Longrightarrow> length (dropWhile P xs) < length xs"
  by (induction xs) (auto simp: less_Suc_eq_le length_dropWhile_le split: if_splits)

lemma lex_number_shorter:
  assumes "lex_number cs = Some (n, rest)"
  shows "length rest < length cs"
proof -
  obtain minus cs1 where
    m: "(case cs of [] \<Rightarrow> (False, cs) | c # r \<Rightarrow> if c = 0x2D then (True, r) else (False, cs))
        = (minus, cs1)"
    by (cases "(case cs of [] \<Rightarrow> (False, cs)
                | c # r \<Rightarrow> if c = 0x2D then (True, r) else (False, cs))") auto
  then have l1: "length cs1 \<le> length cs"
    by (auto split: list.splits if_splits)
  from assms m have ne: "takeWhile is_digit cs1 \<noteq> []"
    by (auto simp: lex_number_def Let_def split: if_splits)
  from assms m ne obtain fp cs2 e where
    f: "lex_fraction (dropWhile is_digit cs1) = Some (fp, cs2)" and
    x: "lex_exponent cs2 = Some (e, rest)"
    by (auto simp: lex_number_def Let_def split: if_splits option.splits)
  from dropWhile_shorter [OF ne] lex_fraction_shorter [OF f] lex_exponent_shorter [OF x] l1
  show ?thesis by simp
qed

text \<open>The token sequence of a text; \<open>None\<close> where no token starts.\<close>

function lex :: "jsstring \<Rightarrow> token list option" where
  "lex [] = Some []"
| "lex (c # cs) =
     (if is_json_ws c then lex cs
      else if c = 0x7B then map_option (Cons LBrace) (lex cs)
      else if c = 0x7D then map_option (Cons RBrace) (lex cs)
      else if c = 0x5B then map_option (Cons LBrack) (lex cs)
      else if c = 0x5D then map_option (Cons RBrack) (lex cs)
      else if c = 0x3A then map_option (Cons Colon) (lex cs)
      else if c = 0x2C then map_option (Cons Comma) (lex cs)
      else if c = 0x22 then
        (case lex_string [] cs of
           None \<Rightarrow> None
         | Some (s, rest) \<Rightarrow> map_option (Cons (Lit (Str s))) (lex rest))
      else if c = 0x2D \<or> is_digit c then
        (case lex_number (c # cs) of
           None \<Rightarrow> None
         | Some (n, rest) \<Rightarrow> map_option (Cons (Lit (Num n))) (lex rest))
      else if take 4 (c # cs) = js ''true'' then
        map_option (Cons (Lit (Bool True))) (lex (drop 3 cs))
      else if take 5 (c # cs) = js ''false'' then
        map_option (Cons (Lit (Bool False))) (lex (drop 4 cs))
      else if take 4 (c # cs) = js ''null'' then
        map_option (Cons (Lit Null)) (lex (drop 3 cs))
      else None)"
  by pat_completeness auto
termination
  by (relation "measure length")
     (auto dest: lex_string_shorter lex_number_shorter simp: less_Suc_eq_le)

subsection \<open>The grammar, as a machine over the tokens\<close>

text \<open>
  The stack holds the arrays and objects that are still open, innermost first, each with
  its members so far in reverse; \<open>InKey ps k\<close> is an object whose key \<open>k\<close> awaits its
  value. No two values are adjacent in the grammar, so a text is accepted exactly when
  its tokens drive the machine from \<open>Value\<close> on the empty stack to \<open>Finished\<close>.
\<close>

datatype frame =
    InArr "jsval list"
  | InObj "(jsstring \<times> jsval) list"
  | InKey "(jsstring \<times> jsval) list" jsstring

datatype expect =
    Value
  | ValueOrEnd
  | KeyOrEnd
  | Key
  | ColonAfter jsstring
  | CommaOrEnd
  | Finished jsval

fun complete :: "jsval \<Rightarrow> frame list \<Rightarrow> (expect \<times> frame list) option" where
  "complete v [] = Some (Finished v, [])"
| "complete v (InArr es # st) = Some (CommaOrEnd, InArr (v # es) # st)"
| "complete v (InKey ps k # st) = Some (CommaOrEnd, InObj ((k, v) # ps) # st)"
| "complete v (InObj ps # st) = None"

text \<open>A value starts here: a literal is complete at once, a bracket opens a frame.\<close>

definition open_value :: "frame list \<Rightarrow> token \<Rightarrow> (expect \<times> frame list) option" where
  "open_value st t =
     (case t of
        Lit v \<Rightarrow> complete v st
      | LBrack \<Rightarrow> Some (ValueOrEnd, InArr [] # st)
      | LBrace \<Rightarrow> Some (KeyOrEnd, InObj [] # st)
      | _ \<Rightarrow> None)"

definition read_key :: "frame list \<Rightarrow> token \<Rightarrow> (expect \<times> frame list) option" where
  "read_key st t =
     (case t of
        Lit (Str k) \<Rightarrow> Some (ColonAfter k, st)
      | _ \<Rightarrow> None)"

definition close_array :: "frame list \<Rightarrow> (expect \<times> frame list) option" where
  "close_array st =
     (case st of
        InArr es # st' \<Rightarrow> complete (Arr (rev es)) st'
      | _ \<Rightarrow> None)"

definition close_object :: "frame list \<Rightarrow> (expect \<times> frame list) option" where
  "close_object st =
     (case st of
        InObj ps # st' \<Rightarrow> complete (Obj (rev ps)) st'
      | _ \<Rightarrow> None)"

definition step :: "expect \<Rightarrow> frame list \<Rightarrow> token \<Rightarrow> (expect \<times> frame list) option" where
  "step x st t =
     (case x of
        Value \<Rightarrow> open_value st t
      | ValueOrEnd \<Rightarrow> (case t of RBrack \<Rightarrow> close_array st | _ \<Rightarrow> open_value st t)
      | KeyOrEnd \<Rightarrow> (case t of RBrace \<Rightarrow> close_object st | _ \<Rightarrow> read_key st t)
      | Key \<Rightarrow> read_key st t
      | ColonAfter k \<Rightarrow>
          (case t of
             Colon \<Rightarrow>
               (case st of
                  InObj ps # st' \<Rightarrow> Some (Value, InKey ps k # st')
                | _ \<Rightarrow> None)
           | _ \<Rightarrow> None)
      | CommaOrEnd \<Rightarrow>
          (case t of
             Comma \<Rightarrow>
               (case st of
                  InArr es # st' \<Rightarrow> Some (Value, st)
                | InObj ps # st' \<Rightarrow> Some (Key, st)
                | _ \<Rightarrow> None)
           | RBrack \<Rightarrow> close_array st
           | RBrace \<Rightarrow> close_object st
           | _ \<Rightarrow> None)
      | Finished v \<Rightarrow> None)"

fun run :: "expect \<Rightarrow> frame list \<Rightarrow> token list \<Rightarrow> (expect \<times> frame list) option" where
  "run x st [] = Some (x, st)"
| "run x st (t # ts) =
     (case step x st t of None \<Rightarrow> None | Some (x', st') \<Rightarrow> run x' st' ts)"

definition parse_tokens :: "token list \<Rightarrow> jsval option" where
  "parse_tokens ts =
     (case run Value [] ts of
        Some (Finished v, []) \<Rightarrow> Some v
      | _ \<Rightarrow> None)"

text \<open>\<^verbatim>\<open>JSON.parse(s)\<close> for a string \<open>s\<close>.\<close>

definition JSON_parse :: "jsstring \<Rightarrow> exn + jsval" where
  "JSON_parse s =
     (case lex s of
        None \<Rightarrow> Inl (SyntaxError s)
      | Some ts \<Rightarrow>
          (case parse_tokens ts of
             None \<Rightarrow> Inl (SyntaxError s)
           | Some v \<Rightarrow> Inr v))"

section \<open>\<^verbatim>\<open>JSON.stringify\<close>\<close>

text \<open>
  The handler serialises only objects whose members are strings. A string is quoted
  as the standard's QuoteJSONString does: the short escapes, \<^verbatim>\<open>\u\<close> with four
  lower-case hexadecimal digits for the other control characters and for a surrogate
  that is not part of a pair, and every other code unit as it is.
\<close>

definition hex_digit :: "16 word \<Rightarrow> 16 word" where
  "hex_digit d = (if d < 10 then 0x30 + d else 0x57 + d)"

definition unicode_escape :: "16 word \<Rightarrow> jsstring" where
  "unicode_escape c =
     [0x5C, 0x75, hex_digit (drop_bit 12 c), hex_digit (drop_bit 8 c AND 0xF),
      hex_digit (drop_bit 4 c AND 0xF), hex_digit (c AND 0xF)]"

definition is_lead :: "16 word \<Rightarrow> bool" where
  "is_lead c = (0xD800 \<le> c \<and> c \<le> 0xDBFF)"

definition is_trail :: "16 word \<Rightarrow> bool" where
  "is_trail c = (0xDC00 \<le> c \<and> c \<le> 0xDFFF)"

fun quote_units :: "jsstring \<Rightarrow> jsstring" where
  "quote_units [] = []"
| "quote_units (c # cs) =
     (if c = 0x8 then [0x5C, 0x62] @ quote_units cs
      else if c = 0x9 then [0x5C, 0x74] @ quote_units cs
      else if c = 0xA then [0x5C, 0x6E] @ quote_units cs
      else if c = 0xC then [0x5C, 0x66] @ quote_units cs
      else if c = 0xD then [0x5C, 0x72] @ quote_units cs
      else if c = 0x22 then [0x5C, 0x22] @ quote_units cs
      else if c = 0x5C then [0x5C, 0x5C] @ quote_units cs
      else if c < 0x20 then unicode_escape c @ quote_units cs
      else if is_lead c then
        (case cs of
           [] \<Rightarrow> unicode_escape c
         | d # ds \<Rightarrow>
             if is_trail d then c # d # quote_units ds
             else unicode_escape c @ quote_units cs)
      else if is_trail c then unicode_escape c @ quote_units cs
      else c # quote_units cs)"

definition quote :: "jsstring \<Rightarrow> jsstring" where
  "quote s = [0x22] @ quote_units s @ [0x22]"

text \<open>The members \<^verbatim>\<open>"k":"v"\<close> of an object, separated by commas.\<close>

fun members :: "(jsstring \<times> jsstring) list \<Rightarrow> jsstring" where
  "members [] = []"
| "members [(k, v)] = quote k @ js '':'' @ quote v"
| "members ((k, v) # kvs) = quote k @ js '':'' @ quote v @ js '','' @ members kvs"

definition JSON_stringify :: "(jsstring \<times> jsstring) list \<Rightarrow> jsstring" where
  "JSON_stringify kvs = js ''{'' @ members kvs @ js ''}''"

section \<open>The handler\<close>

subsection \<open>Its inputs and outputs\<close>

text \<open>
  The event that Netlify passes in: the method and the raw body (\<open>None\<close> when the
  request has none).
\<close>

record event =
  httpMethod :: jsstring
  event_body :: "jsstring option"

text \<open>The object the handler returns.\<close>

record response =
  statusCode :: nat
  headers :: "(jsstring \<times> jsstring) list"
  body :: jsstring

text \<open>The arguments of the one \<^verbatim>\<open>fetch\<close> call; its method is always POST.\<close>

record request =
  url :: jsstring
  req_headers :: "(jsstring \<times> jsstring) list"
  req_body :: jsstring

text \<open>
  What \<^verbatim>\<open>fetch\<close> resolved to: the \<^verbatim>\<open>ok\<close> flag, and the outcome of reading the
  body as text (\<open>Inl s\<close> when that promise is rejected with a value that renders as
  \<open>s\<close>).
\<close>

record upstream =
  ok :: bool
  read :: "jsstring + jsstring"

text \<open>
  Everything outside the handler that it depends on: the three environment variables,
  the answer of the network to a request (\<open>Inl s\<close>: \<^verbatim>\<open>fetch\<close> is rejected with a
  value that renders as \<open>s\<close>), and two functions of the engine that are not modelled
  further: the rendering of a number, and the \<^verbatim>\<open>String\<close> rendering of an error
  the engine itself throws. A promise that never settles is not modelled.
\<close>

record world =
  DEEPSEEK_API_KEY :: "jsstring option"
  DEEPSEEK_BASE_URL :: "jsstring option"
  DEEPSEEK_MODEL :: "jsstring option"
  fetch :: "request \<Rightarrow> jsstring + upstream"
  Number_toString :: "number \<Rightarrow> jsstring"
  error_text :: "exn \<Rightarrow> jsstring"

text \<open>\<^verbatim>\<open>String(e)\<close> for a caught \<open>e\<close>.\<close>

definition String_exn :: "world \<Rightarrow> exn \<Rightarrow> jsstring" where
  "String_exn w e = (case e of Rejected s \<Rightarrow> s | _ \<Rightarrow> error_text w e)"

text \<open>\<^verbatim>\<open>process.env.X || d\<close>: an unset and an empty variable both give the default.\<close>

definition env_or :: "jsstring option \<Rightarrow> jsstring \<Rightarrow> jsstring" where
  "env_or v d = (case v of None \<Rightarrow> d | Some s \<Rightarrow> if s = [] then d else s)"

subsection \<open>Constants of the source\<close>

definition corsHeaders :: "(jsstring \<times> jsstring) list" where
  "corsHeaders =
     [(js ''Access-Control-Allow-Origin'', js ''*''),
      (js ''Access-Control-Allow-Headers'', js ''Content-Type, Authorization''),
      (js ''Access-Control-Allow-Methods'', js ''POST, OPTIONS'')]"

text \<open>\<^verbatim>\<open>{ ...corsHeaders, "Content-Type": "application/json" }\<close>\<close>

definition jsonHeaders :: "(jsstring \<times> jsstring) list" where
  "jsonHeaders = corsHeaders @ [(js ''Content-Type'', js ''application/json'')]"

definition json_response :: "nat \<Rightarrow> (jsstring \<times> jsstring) list \<Rightarrow> response" where
  "json_response code obj =
     \<lparr>statusCode = code, headers = jsonHeaders, body = JSON_stringify obj\<rparr>"

definition system :: jsstring where
  "system = js ''You are a radiology report editor. Return ONLY valid JSON with keys: findings, impression. Keep the same language as the input.''"

text \<open>\<^verbatim>\<open>lines.join("\n")\<close> for an array of strings.\<close>

fun join_lines :: "jsstring list \<Rightarrow> jsstring" where
  "join_lines [] = []"
| "join_lines [l] = l"
| "join_lines (l # ls) = l @ [0xA] @ join_lines ls"

definition user_prompt ::
  "jsstring \<Rightarrow> jsstring \<Rightarrow> jsstring \<Rightarrow> jsstring \<Rightarrow> jsstring \<Rightarrow> jsstring" where
  \<open>user_prompt template name ident date text =
     join_lines
       [js ''Rewrite and polish this dictated dental radiology report text.'',
        js ''- Keep the medical meaning.'',
        js ''- Fix grammar, spelling, and structure.'',
        js ''- If the text is short/fragmented, complete it into a professional report.'',
        js ''- Output JSON ONLY in this schema:'',
        js ''{ "findings": "...", "impression": "..." }'',
        [],
        js ''Template: '' @ (if template = [] then js ''N/A'' else template),
        js ''Patient: '' @ name @ js '' | ID: '' @ ident @ js '' | Date: '' @ date,
        [],
        js ''Raw text:'',
        text]\<close>

text \<open>
  The request of lines 68 to 82. Its body is the serialisation of
  \<^verbatim>\<open>{ model, messages: [{role, content}, {role, content}], temperature: 0.2 }\<close>.
\<close>

definition upstream_request :: "jsstring \<Rightarrow> jsstring \<Rightarrow> jsstring \<Rightarrow> jsstring \<Rightarrow> request" where
  \<open>upstream_request baseUrl apiKey model user =
     \<lparr>url = baseUrl @ js ''/v1/chat/completions'',
      req_headers =
        [(js ''Content-Type'', js ''application/json''),
         (js ''Authorization'', js ''Bearer '' @ apiKey)],
      req_body =
        js ''{"model":'' @ quote model @ js '',"messages":['' @
        JSON_stringify [(js ''role'', js ''system''), (js ''content'', system)] @ js '','' @
        JSON_stringify [(js ''role'', js ''user''), (js ''content'', user)] @
        js ''],"temperature":0.2}''\<rparr>\<close>

subsection \<open>Lines 27 to 66: from the event to the upstream request\<close>

text \<open>\<^verbatim>\<open>event.body ? JSON.parse(event.body) : {}\<close>\<close>

definition request_body :: "event \<Rightarrow> exn + jsval" where
  "request_body ev =
     (case event_body ev of
        None \<Rightarrow> Inr (Obj [])
      | Some b \<Rightarrow> if b = [] then Inr (Obj []) else JSON_parse b)"

text \<open>\<^verbatim>\<open>(obj.k || "").toString()\<close>\<close>

definition field_string :: "world \<Rightarrow> jsval \<Rightarrow> jsstring \<Rightarrow> exn + jsstring" where
  "field_string w obj k =
     (case get obj k of
        Inl e \<Rightarrow> Inl e
      | Inr v \<Rightarrow> toString (Number_toString w) (or_else v (Str [])))"

text \<open>The interpolation \<^verbatim>\<open>${obj.k || ""}\<close> of a template literal.\<close>

definition field_interp :: "world \<Rightarrow> jsval \<Rightarrow> jsstring \<Rightarrow> exn + jsstring" where
  "field_interp w obj k =
     (case get obj k of
        Inl e \<Rightarrow> Inl e
      | Inr v \<Rightarrow> ToString (Number_toString w) (or_else v (Str [])))"

text \<open>
  The part of the \<^verbatim>\<open>try\<close> block before \<^verbatim>\<open>fetch\<close>. It throws (\<open>Inl e\<close>), returns
  a response early (\<open>Inr (Inl r)\<close>), or goes on to \<^verbatim>\<open>fetch\<close> with the trimmed text
  and the request (\<open>Inr (Inr (text, req))\<close>).
\<close>

definition before_fetch :: "world \<Rightarrow> event \<Rightarrow> exn + (response + jsstring \<times> request)" where
  "before_fetch w ev =
     (case request_body ev of
        Inl e \<Rightarrow> Inl e
      | Inr b \<Rightarrow>
     (case field_string w b (js ''text'') of
        Inl e \<Rightarrow> Inl e
      | Inr t \<Rightarrow>
     (case get b (js ''patient'') of
        Inl e \<Rightarrow> Inl e
      | Inr p \<Rightarrow>
     (case field_string w b (js ''template'') of
        Inl e \<Rightarrow> Inl e
      | Inr template \<Rightarrow>
     (let text = trim t; patient = or_else p (Obj []) in
      if text = [] then
        Inr (Inl (json_response 400 [(js ''error'', js ''Missing text'')]))
      else
     (let apiKey = DEEPSEEK_API_KEY w;
          baseUrl = env_or (DEEPSEEK_BASE_URL w) (js ''https://api.deepseek.com'');
          model = env_or (DEEPSEEK_MODEL w) (js ''deepseek-chat'')
      in
      if apiKey = None \<or> apiKey = Some [] then
        Inr (Inl (json_response 500 [(js ''error'', js ''Server missing DEEPSEEK_API_KEY'')]))
      else
     (case field_interp w patient (js ''name'') of
        Inl e \<Rightarrow> Inl e
      | Inr name \<Rightarrow>
     (case field_interp w patient (js ''id'') of
        Inl e \<Rightarrow> Inl e
      | Inr ident \<Rightarrow>
     (case field_interp w patient (js ''date'') of
        Inl e \<Rightarrow> Inl e
      | Inr date \<Rightarrow>
        Inr (Inr (text,
          upstream_request baseUrl (the apiKey) model
            (user_prompt template name ident date text))))))))))))"

subsection \<open>Lines 84 to 113: from the upstream answer to the response\<close>

text \<open>\<^verbatim>\<open>data?.choices?.[0]?.message?.content || ""\<close>\<close>

definition extract_content :: "jsval \<Rightarrow> jsval" where
  "extract_content data =
     or_else
       (get_opt (get_opt (get_opt (get_opt data (js ''choices'')) (js ''0'')) (js ''message''))
          (js ''content''))
       (Str [])"

text \<open>
  Lines 96 to 101. \<^verbatim>\<open>JSON.parse\<close> converts its argument to a string first; whatever
  it throws is caught, and the degraded object takes its place.
\<close>

definition parse_content :: "world \<Rightarrow> jsstring \<Rightarrow> jsval \<Rightarrow> jsval" where
  "parse_content w text content =
     (case (case ToString (Number_toString w) content of
              Inl e \<Rightarrow> Inl e
            | Inr s \<Rightarrow> JSON_parse s) of
        Inl e \<Rightarrow> Obj [(js ''findings'', or_else content (Str text)), (js ''impression'', Str [])]
      | Inr v \<Rightarrow> v)"

text \<open>\<^verbatim>\<open>(parsed.lower || parsed.UPPER || "").toString().trim()\<close>\<close>

definition pick :: "world \<Rightarrow> jsval \<Rightarrow> jsstring \<Rightarrow> jsstring \<Rightarrow> exn + jsstring" where
  "pick w parsed lower upper =
     (case get parsed lower of
        Inl e \<Rightarrow> Inl e
      | Inr a \<Rightarrow>
     (case (if truthy a then Inr a
            else (case get parsed upper of
                    Inl e \<Rightarrow> Inl e
                  | Inr b \<Rightarrow> Inr (or_else b (Str [])))) of
        Inl e \<Rightarrow> Inl e
      | Inr v \<Rightarrow>
     (case toString (Number_toString w) v of
        Inl e \<Rightarrow> Inl e
      | Inr s \<Rightarrow> Inr (trim s))))"

text \<open>Lines 103 to 107: the object \<^verbatim>\<open>out\<close>, as the pair of its two members.\<close>

definition normalize :: "world \<Rightarrow> jsstring \<Rightarrow> jsval \<Rightarrow> exn + jsstring \<times> jsstring" where
  "normalize w text parsed =
     (case pick w parsed (js ''findings'') (js ''FINDINGS'') of
        Inl e \<Rightarrow> Inl e
      | Inr findings \<Rightarrow>
     (case pick w parsed (js ''impression'') (js ''IMPRESSION'') of
        Inl e \<Rightarrow> Inl e
      | Inr impression \<Rightarrow>
        Inr (if findings = [] then text else findings, impression)))"

text \<open>
  The part of the \<^verbatim>\<open>try\<close> block from the settled \<^verbatim>\<open>fetch\<close> on. \<^verbatim>\<open>resp.json()\<close>
  reads the body and parses it.
\<close>

definition after_fetch :: "world \<Rightarrow> jsstring \<Rightarrow> jsstring + upstream \<Rightarrow> exn + response" where
  "after_fetch w text result =
     (case result of
        Inl s \<Rightarrow> Inl (Rejected s)
      | Inr resp \<Rightarrow>
          if \<not> ok resp then
            (case read resp of
               Inl s \<Rightarrow> Inl (Rejected s)
             | Inr errText \<Rightarrow>
                 Inr (json_response 502
                        [(js ''error'', js ''DeepSeek error''), (js ''details'', errText)]))
          else
            (case read resp of
               Inl s \<Rightarrow> Inl (Rejected s)
             | Inr t \<Rightarrow>
            (case JSON_parse t of
               Inl e \<Rightarrow> Inl e
             | Inr data \<Rightarrow>
            (case normalize w text (parse_content w text (extract_content data)) of
               Inl e \<Rightarrow> Inl e
             | Inr (findings, impression) \<Rightarrow>
                 Inr (json_response 200
                        [(js ''findings'', findings), (js ''impression'', impression)])))))"

subsection \<open>The whole handler\<close>

text \<open>
  The body of the \<^verbatim>\<open>try\<close> block, with the requests it sent to the upstream service
  in the order in which it sent them.
\<close>

definition handler_try :: "world \<Rightarrow> event \<Rightarrow> (exn + response) \<times> request list" where
  "handler_try w ev =
     (case before_fetch w ev of
        Inl e \<Rightarrow> (Inl e, [])
      | Inr (Inl r) \<Rightarrow> (Inr r, [])
      | Inr (Inr (text, req)) \<Rightarrow> (after_fetch w text (fetch w req), [req]))"

definition handler :: "world \<Rightarrow> event \<Rightarrow> response \<times> request list" where
  "handler w ev =
     (if httpMethod ev = js ''OPTIONS'' then
        (\<lparr>statusCode = 204, headers = corsHeaders, body = []\<rparr>, [])
      else if httpMethod ev \<noteq> js ''POST'' then
        (json_response 405 [(js ''error'', js ''Method Not Allowed'')], [])
      else
        (case handler_try w ev of
           (Inr r, sent) \<Rightarrow> (r, sent)
         | (Inl e, sent) \<Rightarrow>
             (json_response 500
                [(js ''error'', js ''Server exception''), (js ''details'', String_exn w e)],
              sent)))"

subsection \<open>Concrete inputs\<close>

text \<open>
  The inputs at which the theorems below are instantiated. In \<open>sample_world\<close> the network
  gives the same answer to every request. Its two engine functions are stand-ins: no input
  used below makes the handler render a number, and every error of the engine renders as
  \<^verbatim>\<open>Error\<close>, whatever its kind.
\<close>

definition sample_world :: "jsstring option \<Rightarrow> jsstring + upstream \<Rightarrow> world" where
  "sample_world key answer =
     \<lparr>DEEPSEEK_API_KEY = key, DEEPSEEK_BASE_URL = None, DEEPSEEK_MODEL = None,
      fetch = (\<lambda>req. answer), Number_toString = (\<lambda>n. js ''0''),
      error_text = (\<lambda>e. js ''Error'')\<rparr>"

text \<open>A POST request with the given body.\<close>

definition post :: "jsstring \<Rightarrow> event" where
  "post b = \<lparr>httpMethod = js ''POST'', event_body = Some b\<rparr>"

text \<open>
  The body of a successful upstream answer whose \<^verbatim>\<open>choices[0].message.content\<close> is
  the string \<open>c\<close>.
\<close>

definition completion :: "jsstring \<Rightarrow> upstream" where
  \<open>completion c =
     \<lparr>ok = True,
      read = Inr (js ''{"choices":[{"message":{"content":'' @ quote c @ js ''}}]}'')\<rparr>\<close>

text \<open>The request that \<open>sample_world (Some (js ''k''))\<close> sends for the text \<^verbatim>\<open>hi\<close>.\<close>

definition sample_request :: "jsstring \<Rightarrow> jsstring \<Rightarrow> request" where
  "sample_request template name =
     upstream_request (js ''https://api.deepseek.com'') (js ''k'') (js ''deepseek-chat'')
       (user_prompt template name [] [] (js ''hi''))"

section \<open>Evaluating the model\<close>

text \<open>The definitions that the simplifier unfolds to run the model on a concrete input.\<close>

lemmas json_defs =
  JSON_parse_def parse_tokens_def step_def open_value_def read_key_def close_array_def
  close_object_def is_json_ws_def is_digit_def js_def quote_def is_lead_def is_trail_def
  JSON_stringify_def

lemmas handler_defs =
  request_body_def field_string_def field_interp_def get_def get_opt_def toString_def
  has_own_def or_else_def trim_def is_space_def env_or_def extract_content_def
  parse_content_def normalize_def pick_def Let_def

section \<open>Properties of the handler\<close>

subsection \<open>Auxiliary facts\<close>

lemma statusCode_json_response: "statusCode (json_response c obj) = c"
  by (simp add: json_response_def)

lemma body_json_response: "body (json_response c obj) = JSON_stringify obj"
  by (simp add: json_response_def)


lemma POST_not_OPTIONS: "js ''POST'' \<noteq> js ''OPTIONS''"
  by (simp add: js_def)

lemma handler_POST:
  "httpMethod ev = js ''POST'' \<Longrightarrow>
   handler w ev =
     (case handler_try w ev of
        (Inr r, sent) \<Rightarrow> (r, sent)
      | (Inl e, sent) \<Rightarrow>
          (json_response 500
             [(js ''error'', js ''Server exception''), (js ''details'', String_exn w e)],
           sent))"
  by (simp add: handler_def POST_not_OPTIONS)

lemma handler_post:
  "handler w (post b) =
     (case handler_try w (post b) of
        (Inr r, sent) \<Rightarrow> (r, sent)
      | (Inl e, sent) \<Rightarrow>
          (json_response 500
             [(js ''error'', js ''Server exception''), (js ''details'', String_exn w e)],
           sent))"
  by (rule handler_POST) (simp add: post_def)

lemma parse_hi:
  \<open>JSON_parse (js ''{"text":" hi "}'') = Inr (Obj [(js ''text'', Str (js '' hi ''))])\<close>
  by (simp add: json_defs)

lemma before_fetch_hi:
  \<open>before_fetch (sample_world (Some (js ''k'')) answer) (post (js ''{"text":" hi "}''))
     = Inr (Inr (js ''hi'', sample_request [] []))\<close>
  unfolding before_fetch_def request_body_def post_def sample_request_def
  apply (simp add: parse_hi)
  by (simp add: sample_world_def handler_defs js_def)

lemma parse_completion_space:
  \<open>JSON_parse (js ''{"choices":[{"message":{"content":'' @ quote (js '' '') @ js ''}}]}'')
     = Inr (Obj [(js ''choices'', Arr [Obj [(js ''message'', Obj [(js ''content'', Str (js '' ''))])]])])\<close>
  by (simp add: json_defs)

lemma handler_space:
  \<open>handler (sample_world (Some (js ''k'')) (Inr (completion (js '' '')))) (post (js ''{"text":" hi "}''))
     = (json_response 200 [(js ''findings'', js ''hi''), (js ''impression'', [])], [sample_request [] []])\<close>
  unfolding handler_post handler_try_def before_fetch_hi
  apply (simp add: sample_world_def after_fetch_def completion_def parse_completion_space)
  by (simp add: handler_defs json_defs)


lemma before_fetch_text_nonempty:
  "before_fetch w ev = Inr (Inr (tx, req)) \<Longrightarrow> tx \<noteq> []"
  by (auto simp: before_fetch_def Let_def split: sum.splits if_splits)

lemma before_fetch_early:
  "before_fetch w ev = Inr (Inl r) \<Longrightarrow> statusCode r = 400 \<or> statusCode r = 500"
  by (auto simp: before_fetch_def Let_def statusCode_json_response split: sum.splits if_splits)

lemma normalize_findings_nonempty:
  "normalize w tx parsed = Inr (f, i) \<Longrightarrow> tx \<noteq> [] \<Longrightarrow> f \<noteq> []"
  by (auto simp: normalize_def split: sum.splits if_splits)

lemma after_fetch_200:
  assumes "after_fetch w tx res = Inr r" and "statusCode r = 200"
  shows "\<exists>f i. r = json_response 200 [(js ''findings'', f), (js ''impression'', i)] \<and>
               (tx \<noteq> [] \<longrightarrow> f \<noteq> [])"
  using assms
  by (auto simp: after_fetch_def statusCode_json_response
      split: sum.splits if_splits prod.splits dest: normalize_findings_nonempty)

subsection \<open>The findings of a 200 response\<close>

text \<open>
  Claim C1. Whenever a POST request is answered with status 200, the body of the response
  is the serialisation of an object \<^verbatim>\<open>{findings, impression}\<close> of two strings whose
  \<^verbatim>\<open>findings\<close> is not empty, whatever the upstream service returned. (Status 200 is only
  reached when the trimmed text of the request is not empty.)
\<close>

theorem findings_never_empty:
  assumes "httpMethod ev = js ''POST''"
    and "statusCode (fst (handler w ev)) = 200"
  shows "\<exists>f i. body (fst (handler w ev)) =
                 JSON_stringify [(js ''findings'', f), (js ''impression'', i)] \<and> f \<noteq> []"
proof (cases "before_fetch w ev")
  case (Inl e)
  with assms show ?thesis
    by (simp add: handler_POST handler_try_def statusCode_json_response)
next
  case (Inr x)
  note bx = this
  show ?thesis
  proof (cases x)
    case (Inl r)
    with bx assms before_fetch_early [of w ev r] show ?thesis
      by (auto simp: handler_POST handler_try_def statusCode_json_response)
  next
    case (Inr p)
    obtain tx req where p: "p = (tx, req)" by (cases p)
    with bx Inr have bf: "before_fetch w ev = Inr (Inr (tx, req))"
      by simp
    then have ne: "tx \<noteq> []" by (rule before_fetch_text_nonempty)
    show ?thesis
    proof (cases "after_fetch w tx (fetch w req)")
      case (Inl e)
      with bf assms show ?thesis
        by (simp add: handler_POST handler_try_def statusCode_json_response)
    next
      case (Inr r)
      with bf assms have "handler w ev = (r, [req])" and "statusCode r = 200"
        by (simp_all add: handler_POST handler_try_def)
      with after_fetch_200 [OF Inr] ne show ?thesis by (force simp: body_json_response)
    qed
  qed
qed

theorem findings_never_empty_witness:
  \<open>httpMethod (post (js ''{"text":" hi "}'')) = js ''POST'' \<and>
   statusCode (fst (handler (sample_world (Some (js ''k'')) (Inr (completion (js '' ''))))
                      (post (js ''{"text":" hi "}'')))) = 200 \<and>
   (\<exists>f i. body (fst (handler (sample_world (Some (js ''k'')) (Inr (completion (js '' ''))))
                        (post (js ''{"text":" hi "}'')))) =
            JSON_stringify [(js ''findings'', f), (js ''impression'', i)] \<and> f \<noteq> [])\<close>
proof -
  have m: \<open>httpMethod (post (js ''{"text":" hi "}'')) = js ''POST''\<close>
    by (simp add: post_def)
  have s: \<open>statusCode (fst (handler (sample_world (Some (js ''k'')) (Inr (completion (js '' ''))))
                      (post (js ''{"text":" hi "}'')))) = 200\<close>
    by (simp add: handler_space statusCode_json_response)
  from m s findings_never_empty [OF m s] show ?thesis by blast
qed

lemma handler_sent:
  assumes "httpMethod ev = js ''POST''" and "before_fetch w ev = Inr (Inr (tx, req))"
  shows "handler w ev =
     (case after_fetch w tx (fetch w req) of
        Inr r \<Rightarrow> (r, [req])
      | Inl e \<Rightarrow>
          (json_response 500
             [(js ''error'', js ''Server exception''), (js ''details'', String_exn w e)],
           [req]))"
  using assms by (simp add: handler_POST handler_try_def split: sum.splits)

lemma method_post: "httpMethod (post b) = js ''POST''"
  by (simp add: post_def)

lemma fetch_sample: "fetch (sample_world key answer) req = answer"
  by (simp add: sample_world_def)

subsection \<open>Preflight\<close>

text \<open>
  Claim C8. Every OPTIONS request is answered with status 204, an empty body and exactly
  the three CORS headers, so without a Content-Type header; nothing is sent upstream.
\<close>

theorem options_preflight:
  assumes "httpMethod ev = js ''OPTIONS''"
  shows "handler w ev =
           (\<lparr>statusCode = 204,
             headers =
               [(js ''Access-Control-Allow-Origin'', js ''*''),
                (js ''Access-Control-Allow-Headers'', js ''Content-Type, Authorization''),
                (js ''Access-Control-Allow-Methods'', js ''POST, OPTIONS'')],
             body = []\<rparr>, []) \<and>
         js ''Content-Type'' \<notin> fst ` set (headers (fst (handler w ev)))"
  using assms by (simp add: handler_def corsHeaders_def) (simp add: js_def)

theorem options_preflight_witness:
  "httpMethod \<lparr>httpMethod = js ''OPTIONS'', event_body = None\<rparr> = js ''OPTIONS'' \<and>
   handler (sample_world None (Inl [])) \<lparr>httpMethod = js ''OPTIONS'', event_body = None\<rparr> =
     (\<lparr>statusCode = 204,
       headers =
         [(js ''Access-Control-Allow-Origin'', js ''*''),
          (js ''Access-Control-Allow-Headers'', js ''Content-Type, Authorization''),
          (js ''Access-Control-Allow-Methods'', js ''POST, OPTIONS'')],
       body = []\<rparr>, [])"
  using options_preflight [of "\<lparr>httpMethod = js ''OPTIONS'', event_body = None\<rparr>"
      "sample_world None (Inl [])"]
  by simp

subsection \<open>Upstream failure\<close>




subsection \<open>Facts about trimming\<close>

lemma dropWhile_id: "xs = [] \<or> \<not> P (hd xs) \<Longrightarrow> dropWhile P xs = xs"
  by (cases xs) auto

lemma hd_dropWhile_rev:
  "rev (dropWhile Q (rev xs)) \<noteq> [] \<Longrightarrow> hd (rev (dropWhile Q (rev xs))) = hd xs"
proof -
  obtain zs where "xs = rev (dropWhile Q (rev xs)) @ zs"
    by (metis rev_append rev_rev_ident takeWhile_dropWhile_id)
  then show "rev (dropWhile Q (rev xs)) \<noteq> [] \<Longrightarrow> hd (rev (dropWhile Q (rev xs))) = hd xs"
    by (metis hd_append2)
qed

lemma trim_Nil: "trim [] = []"
  by (simp add: trim_def)

lemma trim_starts:
  assumes "trim s \<noteq> []"
  shows "\<not> is_space (hd (trim s))"
proof -
  let ?xs = "dropWhile is_space s"
  have xs: "?xs \<noteq> []"
  proof
    assume "?xs = []"
    then have "trim s = []" by (simp only: trim_def rev.simps dropWhile.simps)
    with assms show False by simp
  qed
  then have h: "\<not> is_space (hd ?xs)" by (simp add: hd_dropWhile)
  from assms have "hd (trim s) = hd ?xs"
    unfolding trim_def by (rule hd_dropWhile_rev)
  with h show ?thesis by simp
qed

lemma trim_ends:
  assumes "trim s \<noteq> []"
  shows "\<not> is_space (last (trim s))"
proof -
  let ?ys = "dropWhile is_space (rev (dropWhile is_space s))"
  from assms have ys: "?ys \<noteq> []" unfolding trim_def by simp
  then have "\<not> is_space (hd ?ys)" by (rule hd_dropWhile)
  with ys show ?thesis unfolding trim_def by (simp add: last_rev)
qed

lemma trim_idem: "trim (trim s) = trim s"
proof (cases "trim s = []")
  case True
  then show ?thesis by (simp add: trim_Nil)
next
  case False
  from trim_starts [OF False] have a: "dropWhile is_space (trim s) = trim s"
    by (rule dropWhile_id [OF disjI2])
  from trim_ends [OF False] False have "\<not> is_space (hd (rev (trim s)))"
    by (simp add: hd_rev)
  then have "dropWhile is_space (rev (trim s)) = rev (trim s)"
    by (rule dropWhile_id [OF disjI2])
  with a show ?thesis by (simp add: trim_def [of "trim s"])
qed

lemma before_fetch_text_trimmed:
  "before_fetch w ev = Inr (Inr (tx, req)) \<Longrightarrow> trim tx = tx"
  by (auto simp: before_fetch_def Let_def trim_idem split: sum.splits if_splits)


subsection \<open>Content that is not JSON\<close>

lemma normalize_degraded:
  "normalize w tx (Obj [(js ''findings'', Str s), (js ''impression'', Str [])]) =
     Inr (if trim s = [] then tx else trim s, [])"
  by (simp add: normalize_def pick_def get_def toString_def or_else_def trim_Nil js_def)

lemma parse_content_string:
  "parse_content w tx (Str c) =
     (case JSON_parse c of
        Inl e \<Rightarrow> Obj [(js ''findings'', Str (if c = [] then tx else c)), (js ''impression'', Str [])]
      | Inr v \<Rightarrow> v)"
  by (simp add: parse_content_def or_else_def split: sum.splits)

lemma after_fetch_ok:
  assumes "fetch w req = Inr up" and "ok up" and "read up = Inr t" and "JSON_parse t = Inr data"
  shows "after_fetch w tx (fetch w req) =
     (case normalize w tx (parse_content w tx (extract_content data)) of
        Inl e \<Rightarrow> Inl e
      | Inr (findings, impression) \<Rightarrow>
          Inr (json_response 200
                 [(js ''findings'', findings), (js ''impression'', impression)]))"
  using assms by (simp add: after_fetch_def)

text \<open>
  Claim C2, as amended. When the upstream call succeeds and the extracted content is a
  string that \<^verbatim>\<open>JSON.parse\<close> rejects, the answer is 200 with an empty
  \<^verbatim>\<open>impression\<close>, and \<^verbatim>\<open>findings\<close> is the content trimmed if that is not empty, and
  the trimmed text of the request otherwise, that is when the content is empty or consists
  of white space only.
\<close>

theorem unparsable_content_fallback:
  assumes "httpMethod ev = js ''POST''"
    and "before_fetch w ev = Inr (Inr (tx, req))"
    and "fetch w req = Inr up"
    and "ok up"
    and "read up = Inr t"
    and "JSON_parse t = Inr data"
    and "extract_content data = Str c"
    and "JSON_parse c = Inl e"
  shows "handler w ev =
           (json_response 200
              [(js ''findings'', if trim c = [] then tx else trim c), (js ''impression'', [])],
            [req])"
proof -
  from assms(2) have tx: "tx \<noteq> []" "trim tx = tx"
    by (rule before_fetch_text_nonempty, rule before_fetch_text_trimmed)
  have "normalize w tx (parse_content w tx (extract_content data)) =
          Inr (if trim c = [] then tx else trim c, [])"
    using assms(7,8) tx by (simp add: parse_content_string normalize_degraded trim_Nil)
  with after_fetch_ok [OF assms(3-6), of tx] have
    "after_fetch w tx (fetch w req) =
       Inr (json_response 200
              [(js ''findings'', if trim c = [] then tx else trim c), (js ''impression'', [])])"
    by simp
  with assms(1,2) show ?thesis by (simp add: handler_sent)
qed

lemma parse_space: "JSON_parse (js '' '') = Inl (SyntaxError (js '' ''))"
  by (simp add: json_defs)

lemma read_completion:
  \<open>read (completion c) = Inr (js ''{"choices":[{"message":{"content":'' @ quote c @ js ''}}]}'')\<close>
  by (simp add: completion_def)

lemma ok_completion: "ok (completion c)"
  by (simp add: completion_def)

lemma extract_content_completion:
  "extract_content
     (Obj [(js ''choices'', Arr [Obj [(js ''message'', Obj [(js ''content'', Str c)])]])]) =
   Str c"
  by (simp add: extract_content_def get_opt_def or_else_def js_def)

theorem unparsable_content_fallback_witness:
  \<open>handler (sample_world (Some (js ''k'')) (Inr (completion (js ''Normal exam. ''))))
     (post (js ''{"text":" hi "}'')) =
     (json_response 200 [(js ''findings'', js ''Normal exam.''), (js ''impression'', [])],
      [sample_request [] []])\<close>
proof -
  have p: \<open>JSON_parse (js ''{"choices":[{"message":{"content":'' @ quote (js ''Normal exam. '') @ js ''}}]}'')
     = Inr (Obj [(js ''choices'', Arr [Obj [(js ''message'', Obj [(js ''content'', Str (js ''Normal exam. ''))])]])])\<close>
    by (simp add: json_defs)
  have q: "JSON_parse (js ''Normal exam. '') = Inl (SyntaxError (js ''Normal exam. ''))"
    by (simp add: json_defs)
  have t: "trim (js ''Normal exam. '') = js ''Normal exam.''"
    by (simp add: trim_def is_space_def js_def)
  from unparsable_content_fallback
    [OF method_post before_fetch_hi fetch_sample ok_completion read_completion p
        extract_content_completion q]
  show ?thesis by (simp add: t) (simp add: js_def)
qed

text \<open>
  The claim as it was stated fails for content that is white space only: it is not the
  empty string, it is not JSON, and it trims to the empty string, yet \<^verbatim>\<open>findings\<close> is
  the text of the request.
\<close>

theorem whitespace_content_counterexample:
  \<open>js '' '' \<noteq> [] \<and>
   JSON_parse (js '' '') = Inl (SyntaxError (js '' '')) \<and>
   trim (js '' '') = [] \<and>
   handler (sample_world (Some (js ''k'')) (Inr (completion (js '' ''))))
     (post (js ''{"text":" hi "}'')) =
     (json_response 200 [(js ''findings'', js ''hi''), (js ''impression'', [])],
      [sample_request [] []])\<close>
  by (simp add: handler_space parse_space) (simp add: js_def trim_def is_space_def)

subsection \<open>Content that parses to \<^verbatim>\<open>null\<close>\<close>

text \<open>
  Claim C9. There are POST requests with a non-empty text for which the extracted
  content is a string that is valid JSON and yet the answer is not a degraded 200: when
  the content parses to \<^verbatim>\<open>null\<close>, as the string \<^verbatim>\<open>null\<close> does, reading
  \<^verbatim>\<open>parsed.findings\<close> throws and the answer is 500 with the error
  \<^verbatim>\<open>Server exception\<close>.
\<close>

theorem null_content_throws:
  assumes "httpMethod ev = js ''POST''"
    and "before_fetch w ev = Inr (Inr (tx, req))"
    and "fetch w req = Inr up"
    and "ok up"
    and "read up = Inr t"
    and "JSON_parse t = Inr data"
    and "extract_content data = Str c"
    and "JSON_parse c = Inr Null"
  shows "handler w ev =
           (json_response 500
              [(js ''error'', js ''Server exception''),
               (js ''details'', String_exn w (NullProperty Null (js ''findings'')))],
            [req])"
proof -
  have "normalize w tx (parse_content w tx (extract_content data)) =
          Inl (NullProperty Null (js ''findings''))"
    using assms(7,8) by (simp add: parse_content_string normalize_def pick_def get_def)
  with after_fetch_ok [OF assms(3-6), of tx] have
    "after_fetch w tx (fetch w req) = Inl (NullProperty Null (js ''findings''))"
    by simp
  with assms(1,2) show ?thesis by (simp add: handler_sent)
qed

lemma parse_null: "JSON_parse (js ''null'') = Inr Null"
  by (simp add: json_defs)

theorem null_content_throws_witness:
  \<open>JSON_parse (js ''null'') = Inr Null \<and>
   handler (sample_world (Some (js ''k'')) (Inr (completion (js ''null''))))
     (post (js ''{"text":" hi "}'')) =
     (json_response 500 [(js ''error'', js ''Server exception''), (js ''details'', js ''Error'')],
      [sample_request [] []])\<close>
proof -
  have p: \<open>JSON_parse (js ''{"choices":[{"message":{"content":'' @ quote (js ''null'') @ js ''}}]}'')
     = Inr (Obj [(js ''choices'', Arr [Obj [(js ''message'', Obj [(js ''content'', Str (js ''null''))])]])])\<close>
    by (simp add: json_defs)
  from null_content_throws
    [OF method_post before_fetch_hi fetch_sample ok_completion read_completion p
        extract_content_completion parse_null]
  show ?thesis by (simp add: parse_null String_exn_def sample_world_def)
qed

text \<open>
  Only \<^verbatim>\<open>null\<close> behaves so. Content that parses to a number, a boolean, a string or an
  array has no \<^verbatim>\<open>findings\<close> and no \<^verbatim>\<open>impression\<close>, and the answer is the text of the
  request with an empty impression.
\<close>

lemma primitive_content_degrades:
  assumes "parsed = Bool b \<or> parsed = Num n \<or> parsed = Str s \<or> parsed = Arr xs"
  shows "normalize w tx parsed = Inr (tx, [])"
  using assms
  by (auto simp: normalize_def pick_def get_def toString_def or_else_def trim_Nil js_def)

subsection \<open>Validation comes before the configuration check\<close>

lemma field_string_not_nullish:
  "field_string w b k = Inr t \<Longrightarrow> get b k' = Inr (member b k')"
  by (auto simp: field_string_def get_def split: sum.splits if_splits)

text \<open>
  Claim C5, as amended. The API key is looked at only after the input has been validated.
  For every POST request whose body parses and whose \<^verbatim>\<open>text\<close> and \<^verbatim>\<open>template\<close> can
  be converted to strings: if the text trims to the empty string the answer is 400 with
  \<^verbatim>\<open>{error: "Missing text"}\<close>, whether the key is set or not; and if the text does not
  trim to the empty string and the key is unset (or empty) the answer is 500 with
  \<^verbatim>\<open>{error: "Server missing DEEPSEEK_API_KEY"}\<close>. Nothing is sent upstream in either case.
\<close>

theorem validation_before_key_check:
  assumes "httpMethod ev = js ''POST''"
    and "request_body ev = Inr b"
    and "field_string w b (js ''text'') = Inr t"
    and "field_string w b (js ''template'') = Inr tpl"
  shows "(trim t = [] \<longrightarrow>
            handler w ev = (json_response 400 [(js ''error'', js ''Missing text'')], [])) \<and>
         (trim t \<noteq> [] \<and> (DEEPSEEK_API_KEY w = None \<or> DEEPSEEK_API_KEY w = Some []) \<longrightarrow>
            handler w ev =
              (json_response 500 [(js ''error'', js ''Server missing DEEPSEEK_API_KEY'')], []))"
proof -
  from assms(3) have p: "get b (js ''patient'') = Inr (member b (js ''patient''))"
    by (rule field_string_not_nullish)
  have 1: "before_fetch w ev = Inr (Inl (json_response 400 [(js ''error'', js ''Missing text'')]))"
    if "trim t = []"
    using that assms(2-4) p by (simp add: before_fetch_def Let_def)
  have 2: "before_fetch w ev =
             Inr (Inl (json_response 500 [(js ''error'', js ''Server missing DEEPSEEK_API_KEY'')]))"
    if "trim t \<noteq> []" and "DEEPSEEK_API_KEY w = None \<or> DEEPSEEK_API_KEY w = Some []"
    using that assms(2-4) p by (auto simp: before_fetch_def Let_def)
  from 1 2 assms(1) show ?thesis
    by (auto simp: handler_POST handler_try_def)
qed

lemma parse_blank:
  \<open>JSON_parse (js ''{"text":"  "}'') = Inr (Obj [(js ''text'', Str (js ''  ''))])\<close>
  by (simp add: json_defs)

lemma field_string_eval:
  "field_string w (Obj kvs) k = toString (Number_toString w) (or_else (member (Obj kvs) k) (Str []))"
  by (simp add: field_string_def get_def)

theorem validation_before_key_check_witness:
  \<open>handler (sample_world None (Inl [])) (post (js ''{"text":"  "}'')) =
     (json_response 400 [(js ''error'', js ''Missing text'')], []) \<and>
   handler (sample_world None (Inl [])) (post (js ''{"text":" hi "}'')) =
     (json_response 500 [(js ''error'', js ''Server missing DEEPSEEK_API_KEY'')], [])\<close>
proof -
  have b1: \<open>request_body (post (js ''{"text":"  "}'')) = Inr (Obj [(js ''text'', Str (js ''  ''))])\<close>
    by (simp add: request_body_def post_def parse_blank) (simp add: js_def)
  have b2: \<open>request_body (post (js ''{"text":" hi "}'')) = Inr (Obj [(js ''text'', Str (js '' hi ''))])\<close>
    by (simp add: request_body_def post_def parse_hi) (simp add: js_def)
  have t1: "field_string (sample_world None (Inl [])) (Obj [(js ''text'', Str (js ''  ''))]) (js ''text'')
              = Inr (js ''  '')"
    by (simp add: field_string_eval toString_def or_else_def js_def)
  have t2: "field_string (sample_world None (Inl [])) (Obj [(js ''text'', Str (js '' hi ''))]) (js ''text'')
              = Inr (js '' hi '')"
    by (simp add: field_string_eval toString_def or_else_def js_def)
  have p1: "field_string (sample_world None (Inl [])) (Obj [(js ''text'', Str (js ''  ''))]) (js ''template'')
              = Inr []"
    by (simp add: field_string_eval toString_def or_else_def js_def)
  have p2: "field_string (sample_world None (Inl [])) (Obj [(js ''text'', Str (js '' hi ''))]) (js ''template'')
              = Inr []"
    by (simp add: field_string_eval toString_def or_else_def js_def)
  have e1: "trim (js ''  '') = []" and e2: "trim (js '' hi '') \<noteq> []"
    by (simp_all add: trim_def is_space_def js_def)
  have k: "DEEPSEEK_API_KEY (sample_world None (Inl [])) = None"
    by (simp add: sample_world_def)
  from validation_before_key_check [OF method_post b1 t1 p1] e1
       validation_before_key_check [OF method_post b2 t2 p2] e2 k
  show ?thesis by blast
qed

text \<open>
  The claim as it was stated fails when the conversion of \<^verbatim>\<open>template\<close> on line 30
  throws: that line runs before the text is checked on line 32. Here the text is a single
  space, the key is unset, and \<^verbatim>\<open>template\<close> is an object with an own property
  \<^verbatim>\<open>toString\<close>; the answer is 500 with \<^verbatim>\<open>Server exception\<close>, not 400.
\<close>

theorem template_throws_counterexample:
  \<open>DEEPSEEK_API_KEY (sample_world None (Inl [])) = None \<and>
   request_body (post (js ''{"text":" ","template":{"toString":null}}'')) =
     Inr (Obj [(js ''text'', Str (js '' '')), (js ''template'', Obj [(js ''toString'', Null)])]) \<and>
   trim (js '' '') = [] \<and>
   handler (sample_world None (Inl [])) (post (js ''{"text":" ","template":{"toString":null}}'')) =
     (json_response 500 [(js ''error'', js ''Server exception''), (js ''details'', js ''Error'')], [])\<close>
proof -
  have b: \<open>request_body (post (js ''{"text":" ","template":{"toString":null}}'')) =
     Inr (Obj [(js ''text'', Str (js '' '')), (js ''template'', Obj [(js ''toString'', Null)])])\<close>
    by (simp add: request_body_def post_def json_defs)
  have \<open>before_fetch (sample_world None (Inl [])) (post (js ''{"text":" ","template":{"toString":null}}''))
          = Inl (NotAFunction (Obj [(js ''toString'', Null)]))\<close>
    unfolding before_fetch_def b by (simp add: handler_defs js_def)
  then show ?thesis
    by (simp add: b handler_post handler_try_def String_exn_def)
       (simp add: sample_world_def trim_def is_space_def js_def)
qed


subsection \<open>Every path ends in a response\<close>










subsection \<open>Which keys the normalisation reads\<close>

lemma map_of_filter_key:
  "map_of (filter (\<lambda>(k, v). Q k) xs) k = (if Q k then map_of xs k else None)"
  by (induction xs) auto


lemma get_Obj: "get (Obj kvs) k = Inr (member (Obj kvs) k)"
  by (simp add: get_def)

lemma pick_Obj:
  "pick w (Obj kvs) lower upper =
     (case toString (Number_toString w)
             (if truthy (member (Obj kvs) lower) then member (Obj kvs) lower
              else or_else (member (Obj kvs) upper) (Str [])) of
        Inl e \<Rightarrow> Inl e
      | Inr s \<Rightarrow> Inr (trim s))"
  by (simp add: pick_def get_Obj)


lemma toString_empty: "toString nts (Str []) = Inr []"
  by (simp add: toString_def)




subsection \<open>Falsy values\<close>

lemma member_remove:
  "member (Obj (filter (\<lambda>(k', v'). k' \<noteq> k) kvs)) k' =
     (if k' = k then Undefined else member (Obj kvs) k')"
  by (simp add: rev_filter map_of_filter_key [where Q = "\<lambda>k'. k' \<noteq> k"])

lemma pick_remove:
  assumes "\<not> truthy (member (Obj kvs) k)"
  shows "pick w (Obj (filter (\<lambda>(k', v'). k' \<noteq> k) kvs)) lower upper = pick w (Obj kvs) lower upper"
  using assms by (auto simp: pick_Obj member_remove or_else_def simp del: member.simps)

text \<open>
  Claim C10. In the parsed object a key whose value is falsy (\<^verbatim>\<open>null\<close>, \<^verbatim>\<open>false\<close>,
  the empty string, or a number that is zero) counts as absent: the result of the
  normalisation is the same as for the object without that key. So a falsy
  \<^verbatim>\<open>findings\<close> falls through to \<^verbatim>\<open>FINDINGS\<close>, and if that is falsy or absent too the
  text of the request is substituted; a falsy \<^verbatim>\<open>impression\<close> falls through to
  \<^verbatim>\<open>IMPRESSION\<close> and then to the empty string.
\<close>

theorem falsy_value_is_absent:
  assumes "member (Obj kvs) k = v"
    and "v = Null \<or> v = Bool False \<or> v = Str [] \<or> (\<exists>n. v = Num n \<and> is_zero n)"
  shows "normalize w tx (Obj kvs) =
           normalize w tx (Obj (filter (\<lambda>(k', v'). k' \<noteq> k) kvs)) \<and>
         (k = js ''findings'' \<and> \<not> truthy (member (Obj kvs) (js ''FINDINGS'')) \<longrightarrow>
            (\<forall>i. pick w (Obj kvs) (js ''impression'') (js ''IMPRESSION'') = Inr i \<longrightarrow>
                 normalize w tx (Obj kvs) = Inr (tx, i))) \<and>
         (k = js ''impression'' \<and> \<not> truthy (member (Obj kvs) (js ''IMPRESSION'')) \<longrightarrow>
            (\<forall>f. pick w (Obj kvs) (js ''findings'') (js ''FINDINGS'') = Inr f \<longrightarrow>
                 normalize w tx (Obj kvs) = Inr (if f = [] then tx else f, [])))"
proof -
  from assms have falsy: "\<not> truthy (member (Obj kvs) k)"
    by auto
  have "normalize w tx (Obj kvs) =
           normalize w tx (Obj (filter (\<lambda>(k', v'). k' \<noteq> k) kvs))"
    by (simp only: normalize_def pick_remove [OF falsy])
  moreover have "pick w (Obj kvs) (js ''findings'') (js ''FINDINGS'') = Inr []"
    if "k = js ''findings''" and "\<not> truthy (member (Obj kvs) (js ''FINDINGS''))"
    using that falsy by (simp add: pick_Obj or_else_def toString_empty trim_Nil)
  moreover have "pick w (Obj kvs) (js ''impression'') (js ''IMPRESSION'') = Inr []"
    if "k = js ''impression''" and "\<not> truthy (member (Obj kvs) (js ''IMPRESSION''))"
    using that falsy by (simp add: pick_Obj or_else_def toString_empty trim_Nil)
  ultimately show ?thesis
    by (simp add: normalize_def)
qed

theorem falsy_value_is_absent_witness:
  "is_zero \<lparr>neg = False, mant = 0, exp10 = 0\<rparr> \<and>
   normalize (sample_world None (Inl [])) (js ''hi'')
     (Obj [(js ''findings'', Num \<lparr>neg = False, mant = 0, exp10 = 0\<rparr>),
           (js ''FINDINGS'', Str (js ''up'')), (js ''impression'', Null)]) =
   normalize (sample_world None (Inl [])) (js ''hi'')
     (Obj [(js ''FINDINGS'', Str (js ''up'')), (js ''impression'', Null)]) \<and>
   normalize (sample_world None (Inl [])) (js ''hi'')
     (Obj [(js ''FINDINGS'', Str (js ''up'')), (js ''impression'', Null)]) =
   Inr (js ''up'', [])"
proof -
  let ?kvs = "[(js ''findings'', Num \<lparr>neg = False, mant = 0, exp10 = 0\<rparr>),
               (js ''FINDINGS'', Str (js ''up'')), (js ''impression'', Null)]"
  have z: "is_zero \<lparr>neg = False, mant = 0, exp10 = 0\<rparr>"
    by (simp add: is_zero_def)
  have m: "member (Obj ?kvs) (js ''findings'') = Num \<lparr>neg = False, mant = 0, exp10 = 0\<rparr>"
    by (simp add: js_def)
  have fl: "filter (\<lambda>(k', v'). k' \<noteq> js ''findings'') ?kvs =
              [(js ''FINDINGS'', Str (js ''up'')), (js ''impression'', Null)]"
    by (simp add: js_def)
  from z have "Num \<lparr>neg = False, mant = 0, exp10 = 0\<rparr> = Null \<or>
        Num \<lparr>neg = False, mant = 0, exp10 = 0\<rparr> = Bool False \<or>
        Num \<lparr>neg = False, mant = 0, exp10 = 0\<rparr> = Str [] \<or>
        (\<exists>n. Num \<lparr>neg = False, mant = 0, exp10 = 0\<rparr> = Num n \<and> is_zero n)"
    by blast
  from falsy_value_is_absent [OF m this, of "sample_world None (Inl [])" "js ''hi''"]
  have "normalize (sample_world None (Inl [])) (js ''hi'') (Obj ?kvs) =
        normalize (sample_world None (Inl [])) (js ''hi'')
          (Obj [(js ''FINDINGS'', Str (js ''up'')), (js ''impression'', Null)])"
    by (simp only: fl)
  moreover have "normalize (sample_world None (Inl [])) (js ''hi'')
     (Obj [(js ''FINDINGS'', Str (js ''up'')), (js ''impression'', Null)]) = Inr (js ''up'', [])"
    by (simp add: normalize_def pick_Obj or_else_def toString_def trim_def is_space_def js_def)
  ultimately show ?thesis using z by simp
qed


subsection \<open>Optional fields of the request\<close>

lemma get_truthy: "truthy v \<Longrightarrow> get v k = Inr (member v k)"
  by (auto simp: get_def)

lemma truthy_or_object: "truthy (or_else p (Obj []))"
  by (simp add: or_else_def)








end
